theory Spec2Isabelle
  imports Complex_Main "HOL-Library.AList"
begin

section \<open>Python values used by the simulation\<close>

text \<open>
  Exceptions the code can raise become values of \<^verbatim>\<open>error\<close>; a fallible operation
  returns \<^verbatim>\<open>error + 'a\<close> with \<^verbatim>\<open>Inl\<close> for the raised exception.
  Python floats are idealised as reals; \<^verbatim>\<open>int(x)\<close> on a float truncates toward zero
  and \<^verbatim>\<open>np.clip(x, lo, hi)\<close> is \<^verbatim>\<open>minimum(maximum(x, lo), hi)\<close>.
\<close>

datatype error = ValueError | KeyError | IndexError | NetworkXError | AttributeError

definition py_int :: "real \<Rightarrow> int" where
  "py_int x = (if 0 \<le> x then \<lfloor>x\<rfloor> else \<lceil>x\<rceil>)"

definition np_clip :: "real \<Rightarrow> real \<Rightarrow> real \<Rightarrow> real" where
  "np_clip x lo hi = min (max x lo) hi"

section \<open>narrative.py\<close>

record narrative =
  baseline_transmission :: real
  emotional_intensity :: real
  identity_weight :: real
  initial_seeding :: real

definition in_unit :: "real \<Rightarrow> bool" where
  "in_unit v = (0 \<le> v \<and> v \<le> 1)"

text \<open>The dataclass constructor with its \<^verbatim>\<open>__post_init__\<close> range check.\<close>

definition Narrative :: "real \<Rightarrow> real \<Rightarrow> real \<Rightarrow> real \<Rightarrow> error + narrative" where
  "Narrative b e w p =
     (if in_unit b \<and> in_unit e \<and> in_unit w \<and> in_unit p
      then Inr \<lparr>baseline_transmission = b, emotional_intensity = e,
                identity_weight = w, initial_seeding = p\<rparr>
      else Inl ValueError)"

definition effective_transmission :: "narrative \<Rightarrow> real" where
  "effective_transmission n = baseline_transmission n * (1 + emotional_intensity n)"

section \<open>archetypes.py\<close>

text \<open>
  The entries of \<^verbatim>\<open>ARCHETYPES\<close> in the order of the dict literal; the descriptive
  fields (description, color, hex colour) play no part in the dynamics and are left out.
\<close>

record archetype_params =
  nfc :: real
  trust :: real
  cb :: real
  ia :: real
  distribution :: real

definition ARCHETYPES :: "(string \<times> archetype_params) list" where
  "ARCHETYPES =
    [(''immune'', \<lparr>nfc = 0.85, trust = 0.80, cb = 0.20, ia = 0.30, distribution = 0.20\<rparr>),
     (''superspreader'', \<lparr>nfc = 0.15, trust = 0.20, cb = 0.85, ia = 0.90, distribution = 0.15\<rparr>),
     (''moderate'', \<lparr>nfc = 0.50, trust = 0.50, cb = 0.50, ia = 0.50, distribution = 0.50\<rparr>),
     (''critical_thinker'', \<lparr>nfc = 0.90, trust = 0.50, cb = 0.25, ia = 0.35, distribution = 0.10\<rparr>),
     (''cynical_contrarian'', \<lparr>nfc = 0.60, trust = 0.15, cb = 0.70, ia = 0.75, distribution = 0.05\<rparr>)]"

text \<open>A dict is an association list in insertion order; its keys are distinct.\<close>

definition validate_archetype_distribution :: "(string \<times> real) list \<Rightarrow> bool" where
  "validate_archetype_distribution distr =
     (\<bar>sum_list (map snd distr) - 1\<bar> < 0.001)"

text \<open>\<^verbatim>\<open>d[k] += x\<close> on a plain dict: KeyError when the key is absent.\<close>

definition dict_add :: "string \<Rightarrow> int \<Rightarrow> (string \<times> int) list \<Rightarrow> error + (string \<times> int) list" where
  "dict_add k x d =
     (case map_of d k of
        None \<Rightarrow> Inl KeyError
      | Some v \<Rightarrow> Inr (AList.update k (v + x) d))"

definition get_archetype_counts ::
  "int \<Rightarrow> (string \<times> real) list \<Rightarrow> error + (string \<times> int) list" where
  "get_archetype_counts population distr =
     (let counts = map (\<lambda>(archetype, proportion).
                          (archetype, py_int (real_of_int population * proportion))) distr;
          total = sum_list (map snd counts)
      in if total < population then dict_add ''moderate'' (population - total) counts
         else if total > population then dict_add ''moderate'' (- (total - population)) counts
         else Inr counts)"

section \<open>agent.py: the agent and its commit phase\<close>

text \<open>
  The state is the Python string; \<^verbatim>\<open>next_state\<close> is \<^verbatim>\<open>None\<close> outside the
  compute-commit window.
\<close>

record agent =
  unique_id :: nat
  archetype :: string
  need_for_cognition :: real
  institutional_trust :: real
  confirmation_bias :: real
  identity_alignment :: real
  state :: string
  next_state :: "string option"
  infection_count :: nat
  recovery_count :: nat
  relapse_count :: nat
  time_in_I :: nat
  current_I_duration :: nat

definition DisinformationAgent ::
  "nat \<Rightarrow> string \<Rightarrow> real \<Rightarrow> real \<Rightarrow> real \<Rightarrow> real \<Rightarrow> agent" where
  "DisinformationAgent uid arch n t c i =
     \<lparr>unique_id = uid, archetype = arch, need_for_cognition = n, institutional_trust = t,
      confirmation_bias = c, identity_alignment = i, state = ''S'', next_state = None,
      infection_count = 0, recovery_count = 0, relapse_count = 0, time_in_I = 0,
      current_I_duration = 0\<rparr>"

text \<open>
  \<^verbatim>\<open>advance\<close> mutates the agent and the model's \<^verbatim>\<open>cumulative_infected\<close>; the model
  returns the new agent and the amount added to the counter. \<^verbatim>\<open>if self.next_state:\<close>
  is false for \<^verbatim>\<open>None\<close> and for the empty string.
\<close>

definition entering_I :: "string \<Rightarrow> string \<Rightarrow> bool" where
  "entering_I old_state new_state = (old_state \<noteq> ''I'' \<and> new_state = ''I'')"

definition advance :: "agent \<Rightarrow> agent \<times> nat" where
  "advance a =
     (case next_state a of
        None \<Rightarrow> (a, 0)
      | Some s \<Rightarrow>
          if s = [] then (a, 0)
          else
            let old_state = state a;
                a1 = a\<lparr>state := s, next_state := None\<rparr>;
                a2 = (if entering_I old_state s
                      then a1\<lparr>infection_count := infection_count a1 + 1, current_I_duration := 0\<rparr>
                      else a1);
                a3 = (if old_state = ''I'' \<and> s = ''R''
                      then a2\<lparr>recovery_count := recovery_count a2 + 1\<rparr> else a2);
                a4 = (if old_state = ''R'' \<and> s = ''S''
                      then a3\<lparr>relapse_count := relapse_count a3 + 1\<rparr> else a3);
                a5 = (if s = ''I''
                      then a4\<lparr>time_in_I := time_in_I a4 + 1,
                              current_I_duration := current_I_duration a4 + 1\<rparr>
                      else a4)
            in (a5, if entering_I old_state s then 1 else 0))"

section \<open>The random stream, the graph and the model state\<close>

text \<open>
  \<^verbatim>\<open>random.Random(seed)\<close> is a stream of raw integer outputs read at a position; the stream is
  an argument of the model, so every theorem holds for every seed. \<^verbatim>\<open>random()\<close> returns
  a multiple of \<open>2\<^sup>-\<^sup>5\<^sup>3\<close> in \<open>[0, 1)\<close> and \<^verbatim>\<open>_randbelow(n)\<close> a value below \<open>n\<close>.
\<close>

record rng =
  draws :: "nat \<Rightarrow> int"
  pos :: nat

definition next_raw :: "rng \<Rightarrow> int \<times> rng" where
  "next_raw r = (draws r (pos r), r\<lparr>pos := pos r + 1\<rparr>)"

definition random_random :: "rng \<Rightarrow> real \<times> rng" where
  "random_random r = (case next_raw r of (x, r') \<Rightarrow> (real_of_int (x mod 2 ^ 53) / 2 ^ 53, r'))"

definition randbelow :: "rng \<Rightarrow> nat \<Rightarrow> nat \<times> rng" where
  "randbelow r n = (case next_raw r of (x, r') \<Rightarrow> (nat (x mod int n), r'))"

text \<open>
  \<^verbatim>\<open>random.sample(population, k)\<close> of the standard library, by its selection loop over a
  pool: \<^verbatim>\<open>j = randbelow(n - i); result[i] = pool[j]; pool[j] = pool[n - i - 1]\<close>.
  The argument \<open>m\<close> is \<open>n - i\<close>. ValueError when \<open>k\<close> is negative or exceeds the length.
\<close>

fun sample_pool :: "rng \<Rightarrow> 'a list \<Rightarrow> nat \<Rightarrow> nat \<Rightarrow> 'a list \<times> rng" where
  "sample_pool r pool m 0 = ([], r)"
| "sample_pool r pool m (Suc k) =
     (case randbelow r m of (j, r') \<Rightarrow>
        (case sample_pool r' (pool[j := pool ! (m - 1)]) (m - 1) k of
           (xs, r'') \<Rightarrow> (pool ! j # xs, r'')))"

definition random_sample :: "rng \<Rightarrow> 'a list \<Rightarrow> int \<Rightarrow> error + ('a list \<times> rng)" where
  "random_sample r xs k =
     (if 0 \<le> k \<and> k \<le> int (length xs)
      then Inr (sample_pool r xs (length xs) (nat k))
      else Inl ValueError)"

text \<open>
  The networkx graph as its adjacency dict: node, then the list of its neighbours.
  \<^verbatim>\<open>G.neighbors(n)\<close> raises NetworkXError for a node that is not in the graph.
\<close>

type_synonym graph = "(nat \<times> nat list) list"

definition G_nodes :: "graph \<Rightarrow> nat list" where
  "G_nodes g = map fst g"

definition G_neighbors :: "graph \<Rightarrow> nat \<Rightarrow> error + nat list" where
  "G_neighbors g n = (case map_of g n of None \<Rightarrow> Inl NetworkXError | Some ns \<Rightarrow> Inr ns)"

definition G_degree :: "graph \<Rightarrow> (nat \<times> nat) list" where
  "G_degree g = map (\<lambda>(n, ns). (n, length ns)) g"

record row =
  Susceptible :: nat
  Exposed :: nat
  Infected :: nat
  Recovered :: nat
  Cumulative_Infected :: nat
  Infected_Immune :: nat
  Infected_Superspreader :: nat
  Infected_Moderate :: nat
  Infected_Critical :: nat
  Infected_Cynical :: nat

record model =
  narrative :: narrative
  population :: int
  m_edges :: int
  seeding_strategy :: string
  sigma_base :: real
  gamma_base :: real
  omega_base :: real
  cumulative_infected :: nat
  current_step :: nat
  G :: graph
  agents :: "agent list"
  random_py :: rng
  datacollector :: "row list"

section \<open>agent.py: transition probabilities and the compute phase\<close>

definition calculate_alpha :: "agent \<Rightarrow> narrative \<Rightarrow> real" where
  "calculate_alpha a nar =
     (let base = effective_transmission nar;
          effect = - 0.6 * (need_for_cognition a - 0.5)
                   + 0.0 * (institutional_trust a - 0.5)
                   + 0.4 * (confirmation_bias a - 0.5)
                   + 0.3 * (identity_alignment a - 0.5) * identity_weight nar;
          susceptibility = np_clip (1.0 + effect) 0.1 2.0;
          alpha = base * susceptibility
      in np_clip alpha 0.0 1.0)"

definition calculate_sigma :: "model \<Rightarrow> agent \<Rightarrow> narrative \<Rightarrow> real" where
  "calculate_sigma m a nar =
     (let base_adoption = sigma_base m;
          effect = - 0.7 * (need_for_cognition a - 0.5)
                   + - 0.5 * (institutional_trust a - 0.5)
                   + 0.6 * (confirmation_bias a - 0.5)
                   + 1.0 * (identity_alignment a - 0.5) * identity_weight nar;
          multiplier = np_clip (1.0 + effect) 0.1 3.0;
          sigma = base_adoption * multiplier
      in np_clip sigma 0.0 1.0)"

definition calculate_gamma :: "model \<Rightarrow> agent \<Rightarrow> narrative \<Rightarrow> real" where
  "calculate_gamma m a nar =
     (let base_correction = gamma_base m;
          nfc_boost = need_for_cognition a * 0.8;
          trust_boost = institutional_trust a * 0.6;
          cb_penalty = confirmation_bias a * 0.5;
          ia_penalty = identity_alignment a * identity_weight nar * 0.8;
          multiplier = (1 + nfc_boost + trust_boost) / (1 + cb_penalty + ia_penalty);
          gamma = base_correction * multiplier
      in np_clip gamma 0.0 1.0)"

definition calculate_omega :: "model \<Rightarrow> agent \<Rightarrow> narrative \<Rightarrow> real" where
  "calculate_omega m a nar =
     (let base_waning = omega_base m;
          trust_penalty = (1 - institutional_trust a) * 0.6;
          ia_amplification = identity_alignment a * identity_weight nar * 1.0;
          nfc_protection = need_for_cognition a * 0.4;
          multiplier = (1 + trust_penalty + ia_amplification) / (1 + nfc_protection);
          omega = base_waning * multiplier
      in np_clip omega 0.0 0.2)"

text \<open>
  \<^verbatim>\<open>agents_dict\<close> is the dict comprehension over the model's agents (a later agent with
  the same id would replace an earlier one).
\<close>

definition agents_dict :: "agent list \<Rightarrow> nat \<Rightarrow> agent option" where
  "agents_dict as = map_of (rev (map (\<lambda>a. (unique_id a, a)) as))"

definition neighbor_infected :: "agent list \<Rightarrow> nat \<Rightarrow> bool" where
  "neighbor_infected as n =
     (case agents_dict as n of None \<Rightarrow> False | Some nb \<Rightarrow> state nb = ''I'')"

definition get_infected_neighbors :: "model \<Rightarrow> agent \<Rightarrow> error + nat list" where
  "get_infected_neighbors m a =
     (case G_neighbors (G m) (unique_id a) of
        Inl e \<Rightarrow> Inl e
      | Inr ns \<Rightarrow> Inr (filter (neighbor_infected (agents m)) ns))"

definition check_exposure :: "model \<Rightarrow> agent \<Rightarrow> rng \<Rightarrow> error + (string \<times> rng)" where
  "check_exposure m a r =
     (case get_infected_neighbors m a of
        Inl e \<Rightarrow> Inl e
      | Inr infected_neighbors \<Rightarrow>
          if infected_neighbors = [] then Inr (''S'', r)
          else
            let alpha = calculate_alpha a (narrative m);
                k = length infected_neighbors;
                p_exposure = 1 - (1 - alpha) ^ k
            in (case random_random r of
                  (u, r') \<Rightarrow> Inr (if u < p_exposure then ''E'' else ''S'', r')))"

definition check_adoption :: "model \<Rightarrow> agent \<Rightarrow> rng \<Rightarrow> string \<times> rng" where
  "check_adoption m a r =
     (case random_random r of
        (u, r') \<Rightarrow> (if u < calculate_sigma m a (narrative m) then ''I'' else ''E'', r'))"

definition check_correction :: "model \<Rightarrow> agent \<Rightarrow> rng \<Rightarrow> string \<times> rng" where
  "check_correction m a r =
     (case random_random r of
        (u, r') \<Rightarrow> (if u < calculate_gamma m a (narrative m) then ''R'' else ''I'', r'))"

definition check_relapse :: "model \<Rightarrow> agent \<Rightarrow> rng \<Rightarrow> string \<times> rng" where
  "check_relapse m a r =
     (case random_random r of
        (u, r') \<Rightarrow> (if u < calculate_omega m a (narrative m) then ''S'' else ''R'', r'))"

text \<open>
  \<^verbatim>\<open>DisinformationAgent.step\<close>: writes only the agent's own \<^verbatim>\<open>next_state\<close> and reads the
  random stream; a state outside the four leaves \<^verbatim>\<open>next_state\<close> as it is.
\<close>

definition agent_step :: "model \<Rightarrow> agent \<Rightarrow> rng \<Rightarrow> error + (agent \<times> rng)" where
  "agent_step m a r =
     (if state a = ''S'' then
        (case check_exposure m a r of
           Inl e \<Rightarrow> Inl e
         | Inr (s, r') \<Rightarrow> Inr (a\<lparr>next_state := Some s\<rparr>, r'))
      else if state a = ''E'' then
        (case check_adoption m a r of (s, r') \<Rightarrow> Inr (a\<lparr>next_state := Some s\<rparr>, r'))
      else if state a = ''I'' then
        (case check_correction m a r of (s, r') \<Rightarrow> Inr (a\<lparr>next_state := Some s\<rparr>, r'))
      else if state a = ''R'' then
        (case check_relapse m a r of (s, r') \<Rightarrow> Inr (a\<lparr>next_state := Some s\<rparr>, r'))
      else Inr (a, r))"

section \<open>model.py: data collection, stepping and running\<close>

definition count_state :: "model \<Rightarrow> string \<Rightarrow> nat" where
  "count_state m s = length (filter (\<lambda>a. state a = s) (agents m))"

definition count_infected_archetype :: "model \<Rightarrow> string \<Rightarrow> nat" where
  "count_infected_archetype m arch =
     length (filter (\<lambda>a. state a = ''I'' \<and> archetype a = arch) (agents m))"

definition collect_row :: "model \<Rightarrow> row" where
  "collect_row m =
     \<lparr>Susceptible = count_state m ''S'', Exposed = count_state m ''E'',
      Infected = count_state m ''I'', Recovered = count_state m ''R'',
      Cumulative_Infected = cumulative_infected m,
      Infected_Immune = count_infected_archetype m ''immune'',
      Infected_Superspreader = count_infected_archetype m ''superspreader'',
      Infected_Moderate = count_infected_archetype m ''moderate'',
      Infected_Critical = count_infected_archetype m ''critical_thinker'',
      Infected_Cynical = count_infected_archetype m ''cynical_contrarian''\<rparr>"

definition collect :: "model \<Rightarrow> model" where
  "collect m = m\<lparr>datacollector := datacollector m @ [collect_row m]\<rparr>"

text \<open>
  The first loop of \<^verbatim>\<open>step\<close>: every agent computes its candidate, in the order of the
  agent set, each drawing from the one stream. An agent's \<^verbatim>\<open>step\<close> writes only its own
  \<^verbatim>\<open>next_state\<close>, so the states it reads from the model are those at the start of the
  step, whichever agents have already computed.
\<close>

fun compute_phase :: "model \<Rightarrow> agent list \<Rightarrow> rng \<Rightarrow> error + (agent list \<times> rng)" where
  "compute_phase m [] r = Inr ([], r)"
| "compute_phase m (a # as) r =
     (case agent_step m a r of
        Inl e \<Rightarrow> Inl e
      | Inr (a', r') \<Rightarrow>
          (case compute_phase m as r' of
             Inl e \<Rightarrow> Inl e
           | Inr (as', r'') \<Rightarrow> Inr (a' # as', r'')))"

text \<open>The second loop: every agent commits; the counter grows by the entries into I.\<close>

definition commit_phase :: "agent list \<Rightarrow> agent list \<times> nat" where
  "commit_phase as = (map (\<lambda>a. fst (advance a)) as, sum_list (map (\<lambda>a. snd (advance a)) as))"

definition step :: "model \<Rightarrow> error + model" where
  "step m =
     (case compute_phase m (agents m) (random_py m) of
        Inl e \<Rightarrow> Inl e
      | Inr (as1, r1) \<Rightarrow>
          (case commit_phase as1 of
             (as2, inc) \<Rightarrow>
               let m1 = m\<lparr>agents := as2, random_py := r1,
                          cumulative_infected := cumulative_infected m + inc\<rparr>;
                   m2 = collect m1
               in Inr (m2\<lparr>current_step := current_step m2 + 1\<rparr>)))"

definition epidemic_ended :: "model \<Rightarrow> bool" where
  "epidemic_ended m = (count_state m ''E'' = 0 \<and> count_state m ''I'' = 0)"

text \<open>\<^verbatim>\<open>for _ in range(max_steps): self.step(); if self._epidemic_ended(): break\<close>\<close>

fun run_loop :: "model \<Rightarrow> nat \<Rightarrow> error + model" where
  "run_loop m 0 = Inr m"
| "run_loop m (Suc n) =
     (case step m of
        Inl e \<Rightarrow> Inl e
      | Inr m' \<Rightarrow> if epidemic_ended m' then Inr m' else run_loop m' n)"

definition run :: "model \<Rightarrow> int \<Rightarrow> error + model" where
  "run m max_steps = run_loop m (nat max_steps)"

section \<open>model.py: construction\<close>

text \<open>
  The constructor's arguments. \<^verbatim>\<open>arg_rng\<close> is the stream \<^verbatim>\<open>random.Random(seed)\<close> yields
  and \<^verbatim>\<open>arg_network\<close> the graph \<^verbatim>\<open>nx.barabasi_albert_graph(n, m, seed)\<close> returns: both are
  library results and stay arguments. \<^verbatim>\<open>narrative_params\<close> holds the four values of the
  dict in the order of the dataclass fields.
\<close>

record model_args =
  narrative_params :: "real \<times> real \<times> real \<times> real"
  archetype_dist :: "(string \<times> real) list"
  arg_population :: int
  arg_m_edges :: int
  arg_seeding_strategy :: string
  arg_sigma_base :: real
  arg_gamma_base :: real
  arg_omega_base :: real
  arg_rng :: rng
  arg_network :: graph

text \<open>\<^verbatim>\<open>barabasi_albert_graph\<close> raises NetworkXError unless \<open>1 \<le> m < n\<close>.\<close>

definition create_network :: "int \<Rightarrow> int \<Rightarrow> graph \<Rightarrow> error + graph" where
  "create_network n m g = (if m < 1 \<or> m \<ge> n then Inl NetworkXError else Inr g)"

text \<open>
  \<^verbatim>\<open>_create_agents\<close>: for each entry of the counts, in order, \<^verbatim>\<open>ARCHETYPES[name]\<close>
  (KeyError for an unknown name) and \<^verbatim>\<open>range(count)\<close> new agents with consecutive ids;
  \<^verbatim>\<open>range\<close> of a negative count is empty.
\<close>

fun create_agents :: "(string \<times> int) list \<Rightarrow> nat \<Rightarrow> error + agent list" where
  "create_agents [] agent_id = Inr []"
| "create_agents ((name, count) # rest) agent_id =
     (case map_of ARCHETYPES name of
        None \<Rightarrow> Inl KeyError
      | Some p \<Rightarrow>
          (case create_agents rest (agent_id + nat count) of
             Inl e \<Rightarrow> Inl e
           | Inr as \<Rightarrow>
               Inr (map (\<lambda>i. DisinformationAgent i name (nfc p) (trust p) (cb p) (ia p))
                      [agent_id ..< agent_id + nat count] @ as)))"

text \<open>The slice \<^verbatim>\<open>xs[:k]\<close>; a negative \<open>k\<close> counts from the end.\<close>

definition py_take :: "int \<Rightarrow> 'a list \<Rightarrow> 'a list" where
  "py_take k xs = (if 0 \<le> k then take (nat k) xs else take (nat (int (length xs) + k)) xs)"

definition compute_n_seed :: "int \<Rightarrow> real \<Rightarrow> int" where
  "compute_n_seed pop p0 =
     (let n_seed = py_int (real_of_int pop * p0) in if n_seed = 0 then 1 else n_seed)"

text \<open>
  \<^verbatim>\<open>sorted(degrees.items(), key=lambda x: x[1], reverse=True)\<close> is stable: nodes of equal
  degree keep the order of the graph's nodes.
\<close>

definition hub_seed_ids :: "graph \<Rightarrow> int \<Rightarrow> nat list" where
  "hub_seed_ids g n_seed =
     (let degrees = G_degree g;
          sorted_nodes = sort_key (\<lambda>x. - int (snd x)) degrees
      in map fst (py_take n_seed sorted_nodes))"

fun seed_by_archetype ::
  "(string \<times> archetype_params) list \<Rightarrow> agent list \<Rightarrow> int \<Rightarrow> rng \<Rightarrow> error + (agent list \<times> rng)" where
  "seed_by_archetype [] agent_list n_seed r = Inr ([], r)"
| "seed_by_archetype ((archetype_name, p) # rest) agent_list n_seed r =
     (let archetype_agents = filter (\<lambda>a. archetype a = archetype_name) agent_list;
          n_archetype_seed = py_int (real_of_int n_seed * distribution p)
      in if n_archetype_seed > 0 \<and> archetype_agents \<noteq> [] then
           (case random_sample r archetype_agents
                   (min n_archetype_seed (int (length archetype_agents))) of
              Inl e \<Rightarrow> Inl e
            | Inr (seeds, r') \<Rightarrow>
                (case seed_by_archetype rest agent_list n_seed r' of
                   Inl e \<Rightarrow> Inl e
                 | Inr (others, r'') \<Rightarrow> Inr (seeds @ others, r'')))
         else seed_by_archetype rest agent_list n_seed r)"

definition select_seed_agents :: "model \<Rightarrow> int \<Rightarrow> error + (agent list \<times> rng)" where
  "select_seed_agents m n_seed =
     (let agent_list = agents m in
      if seeding_strategy m = ''random'' then random_sample (random_py m) agent_list n_seed
      else if seeding_strategy m = ''hub_targeted'' then
        (let seed_ids = hub_seed_ids (G m) n_seed
         in Inr (filter (\<lambda>a. unique_id a \<in> set seed_ids) agent_list, random_py m))
      else if seeding_strategy m = ''archetype_proportional'' then
        seed_by_archetype ARCHETYPES agent_list n_seed (random_py m)
      else Inl ValueError)"

text \<open>
  \<^verbatim>\<open>for agent in seed_agents: agent.state = 'I'; self.cumulative_infected += 1\<close>.
  The selected objects are the model's own agents; the model finds them by their id,
  which \<^verbatim>\<open>_create_agents\<close> gives once.
\<close>

definition infect :: "agent list \<Rightarrow> agent list \<Rightarrow> agent list" where
  "infect seed_agents as =
     map (\<lambda>a. if unique_id a \<in> set (map unique_id seed_agents) then a\<lparr>state := ''I''\<rparr> else a) as"

definition seed_initial_infections :: "model \<Rightarrow> error + model" where
  "seed_initial_infections m =
     (let n_seed = compute_n_seed (population m) (initial_seeding (narrative m)) in
      case select_seed_agents m n_seed of
        Inl e \<Rightarrow> Inl e
      | Inr (seed_agents, r') \<Rightarrow>
          Inr (m\<lparr>agents := infect seed_agents (agents m), random_py := r',
                 cumulative_infected := cumulative_infected m + length seed_agents\<rparr>))"

definition DisinformationModel :: "model_args \<Rightarrow> error + model" where
  "DisinformationModel c =
     (if \<not> validate_archetype_distribution (archetype_dist c) then Inl ValueError
      else
        case narrative_params c of
          (b, e, w, p) \<Rightarrow>
            (case Narrative b e w p of
               Inl err \<Rightarrow> Inl err
             | Inr nar \<Rightarrow>
                 (case create_network (arg_population c) (arg_m_edges c) (arg_network c) of
                    Inl err \<Rightarrow> Inl err
                  | Inr g \<Rightarrow>
                      (case get_archetype_counts (arg_population c) (archetype_dist c) of
                         Inl err \<Rightarrow> Inl err
                       | Inr archetype_counts \<Rightarrow>
                           (case create_agents archetype_counts 0 of
                              Inl err \<Rightarrow> Inl err
                            | Inr as \<Rightarrow>
                                (case seed_initial_infections
                                        \<lparr>narrative = nar, population = arg_population c,
                                         m_edges = arg_m_edges c,
                                         seeding_strategy = arg_seeding_strategy c,
                                         sigma_base = arg_sigma_base c,
                                         gamma_base = arg_gamma_base c,
                                         omega_base = arg_omega_base c,
                                         cumulative_infected = 0, current_step = 0,
                                         G = g, agents = as, random_py = arg_rng c,
                                         datacollector = []\<rparr> of
                                   Inl err \<Rightarrow> Inl err
                                 | Inr m \<Rightarrow> Inr (collect m)))))))"

section \<open>model.py: metrics\<close>

text \<open>
  numpy float results: a finite value, the infinities, or nan. \<^verbatim>\<open>np.mean\<close> of an empty
  list is nan, and numpy's division by zero gives an infinity or nan, both with a warning
  and without raising.
\<close>

datatype pyfloat = Fin real | PInf | NInf | NaN


definition np_div :: "real \<Rightarrow> real \<Rightarrow> pyfloat" where
  "np_div x y =
     (if y = 0 then (if x = 0 then NaN else if 0 < x then PInf else NInf) else Fin (x / y))"







text \<open>
  \<^verbatim>\<open>get_peak_metrics\<close> reads the collected rows. \<^verbatim>\<open>idxmax\<close> is the index of the first
  maximum and raises ValueError on an empty frame.
\<close>

definition idxmax :: "nat list \<Rightarrow> nat" where
  "idxmax xs = length (takeWhile (\<lambda>x. x \<noteq> Max (set xs)) xs)"

record peak_metrics =
  max_infected :: nat
  max_infected_pct :: pyfloat
  time_to_peak :: nat
  attack_rate :: pyfloat

definition get_peak_metrics :: "model \<Rightarrow> error + peak_metrics" where
  "get_peak_metrics m =
     (let df = datacollector m in
      if df = [] then Inl ValueError
      else
        let max_inf = Max (set (map Infected df));
            peak = idxmax (map Infected df);
            rate = np_div (real (Cumulative_Infected (last df))) (real_of_int (population m))
        in Inr \<lparr>max_infected = max_inf,
                max_infected_pct = np_div (real max_inf) (real_of_int (population m)),
                time_to_peak = peak, attack_rate = rate\<rparr>)"

text \<open>
  \<^verbatim>\<open>get_archetype_infection_rates\<close>: per archetype the agents now in state I, the
  agents of the archetype, and their quotient (0 for an empty archetype).
\<close>

definition get_archetype_infection_rates :: "model \<Rightarrow> (string \<times> nat \<times> nat \<times> real) list" where
  "get_archetype_infection_rates m =
     map (\<lambda>archetype_name.
            let archetype_agents = filter (\<lambda>a. archetype a = archetype_name) (agents m);
                total = length archetype_agents;
                infected = length (filter (\<lambda>a. state a = ''I'') archetype_agents)
            in (archetype_name, infected, total,
                if total > 0 then real infected / real total else 0))
         (map fst ARCHETYPES)"

text \<open>
  The methods the class \<^verbatim>\<open>DisinformationModel\<close> defines in model.py, in source order, and
  the lookup of a method by name on an instance: AttributeError for a name the class
  does not define.
\<close>

definition DisinformationModel_methods :: "string list" where
  "DisinformationModel_methods =
     [''__init__'', ''_create_network'', ''_create_agents'', ''_seed_initial_infections'',
      ''_setup_datacollector'', ''step'', ''run'', ''_epidemic_ended'', ''calculate_R0'',
      ''get_peak_metrics'', ''get_archetype_infection_rates'', ''_count_state'',
      ''_count_infected_archetype'']"

definition lookup_method :: "string \<Rightarrow> error + string" where
  "lookup_method name =
     (if name \<in> set DisinformationModel_methods then Inr name else Inl AttributeError)"

section \<open>Concrete inputs\<close>

text \<open>A stream that yields the listed raw outputs and then zeros.\<close>

definition rng_of_list :: "int list \<Rightarrow> rng" where
  "rng_of_list xs = \<lparr>draws = (\<lambda>i. if i < length xs then xs ! i else 0), pos = 0\<rparr>"

text \<open>The distribution test_model.py builds from the archetypes' own shares.\<close>

definition default_dist :: "(string \<times> real) list" where
  "default_dist = map (\<lambda>(name, p). (name, distribution p)) ARCHETYPES"

text \<open>An exposed agent whose computed candidate is I.\<close>

definition agent_EI :: agent where
  "agent_EI =
     (DisinformationAgent 0 ''moderate'' 0.5 0.5 0.5 0.5)\<lparr>state := ''E'', next_state := Some ''I''\<rparr>"

text \<open>
  A graph on the nodes \<open>0, \<dots>, n - 1\<close> in which every later node is attached to node 0:
  one of the graphs preferential attachment with one edge per node can produce.
\<close>

definition star_network :: "nat \<Rightarrow> graph" where
  "star_network n = (0, [1 ..< n]) # map (\<lambda>i. (i, [0])) [1 ..< n]"

text \<open>
  Two agents, both seeded; the stream makes agent 0 recover, relapse, be exposed again and
  adopt again while agent 1 stays infected.
\<close>

definition args_reinfection :: model_args where
  "args_reinfection =
     \<lparr>narrative_params = (0.45, 0.70, 0.75, 1.0), archetype_dist = default_dist,
      arg_population = 2, arg_m_edges = 1, arg_seeding_strategy = ''random'',
      arg_sigma_base = 0.30, arg_gamma_base = 0.05, arg_omega_base = 0.02,
      arg_rng = rng_of_list [0, 0, 0, 2 ^ 52, 0, 2 ^ 52, 0, 2 ^ 52, 0, 2 ^ 52],
      arg_network = star_network 2\<rparr>"

text \<open>The parameters of test_model.py with ten agents and seeding by archetype.\<close>

definition args_no_seed :: model_args where
  "args_no_seed =
     \<lparr>narrative_params = (0.45, 0.70, 0.75, 0.06), archetype_dist = default_dist,
      arg_population = 10, arg_m_edges = 3, arg_seeding_strategy = ''archetype_proportional'',
      arg_sigma_base = 0.30, arg_gamma_base = 0.05, arg_omega_base = 0.02,
      arg_rng = rng_of_list [], arg_network = star_network 10\<rparr>"


text \<open>
  Two agents, both seeded: agent 0 recovers in the first step and agent 1 in the second.
\<close>

definition args_extinction :: model_args where
  "args_extinction = args_reinfection\<lparr>arg_rng := rng_of_list [0, 0, 0, 2 ^ 52, 2 ^ 52, 0]\<rparr>"

text \<open>
  Shares that sum to 1.0009765625, inside the tolerance of 0.001, for a population
  of 2048; all values are exact binary fractions.
\<close>

definition surplus_dist :: "(string \<times> real) list" where
  "surplus_dist =
     [(''immune'', 0.5009765625), (''superspreader'', 0.5), (''moderate'', 0.0),
      (''critical_thinker'', 0.0), (''cynical_contrarian'', 0.0)]"

definition args_surplus :: model_args where
  "args_surplus =
     \<lparr>narrative_params = (0.45, 0.70, 0.75, 0.0), archetype_dist = surplus_dist,
      arg_population = 2048, arg_m_edges = 1, arg_seeding_strategy = ''random'',
      arg_sigma_base = 0.30, arg_gamma_base = 0.05, arg_omega_base = 0.02,
      arg_rng = rng_of_list [], arg_network = star_network 2048\<rparr>"


section \<open>The seed count in the words of the specification\<close>



section \<open>Predicates used in the statements\<close>

definition counters_zero :: "agent \<Rightarrow> bool" where
  "counters_zero a =
     (infection_count a = 0 \<and> recovery_count a = 0 \<and> relapse_count a = 0
      \<and> time_in_I a = 0 \<and> current_I_duration a = 0 \<and> next_state a = None)"

definition valid_state :: "string \<Rightarrow> bool" where
  "valid_state s = (s = ''S'' \<or> s = ''E'' \<or> s = ''I'' \<or> s = ''R'')"

text \<open>
  The invariant of the time series: every agent is in one of the four states, the four
  state counts of every row add up to the number of agents, and the last row carries the
  current cumulative counter.
\<close>

definition rows_ok :: "model \<Rightarrow> bool" where
  "rows_ok m =
     (list_all (\<lambda>a. valid_state (state a)) (agents m)
      \<and> list_all (\<lambda>r. Susceptible r + Exposed r + Infected r + Recovered r = length (agents m))
           (datacollector m)
      \<and> datacollector m \<noteq> []
      \<and> Cumulative_Infected (last (datacollector m)) = cumulative_infected m)"

text \<open>The state after \<open>k\<close> calls of \<^verbatim>\<open>step\<close>, with no early stop.\<close>

fun steps :: "model \<Rightarrow> nat \<Rightarrow> error + model" where
  "steps m 0 = Inr m"
| "steps m (Suc k) = (case step m of Inl e \<Rightarrow> Inl e | Inr m' \<Rightarrow> steps m' k)"

section \<open>Allocation of agents to archetypes\<close>

text \<open>
  C2 (evaluation of the code). The claim gives the rounding residual to the archetype with
  the largest share. For population 10 and shares immune 0.5, superspreader 0.25,
  moderate 0.25 the truncated counts are 5, 2, 2 and the residual 1 goes to moderate, which
  has the smallest share, not to immune. For population 3 and shares immune 0.5,
  superspreader 0.5 the distribution has no moderate entry and the residual update raises
  KeyError, so no counts are returned.
\<close>

theorem get_archetype_counts_residual_to_moderate:
  "get_archetype_counts 10 [(''immune'', 0.5), (''superspreader'', 0.25), (''moderate'', 0.25)]
     = Inr [(''immune'', 5), (''superspreader'', 2), (''moderate'', 3)]
   \<and> validate_archetype_distribution
         [(''immune'', 0.5), (''superspreader'', 0.25), (''moderate'', 0.25)]
   \<and> get_archetype_counts 3 [(''immune'', 0.5), (''superspreader'', 0.5)] = Inl KeyError
   \<and> validate_archetype_distribution [(''immune'', 0.5), (''superspreader'', 0.5)]"
  by (simp add: get_archetype_counts_def validate_archetype_distribution_def py_int_def
      dict_add_def Let_def)

section \<open>Bookkeeping of the commit phase\<close>

text \<open>
  C4 as stated fails: the claim increments \<^verbatim>\<open>time_in_I\<close> and \<^verbatim>\<open>current_I_duration\<close> only for
  an agent that was in I and remains in I. An exposed agent that enters I is not in I
  before the commit, and both counters grow by one.
\<close>

theorem advance_entry_increments_time:
  "state agent_EI \<noteq> ''I'' \<and> time_in_I (fst (advance agent_EI)) = time_in_I agent_EI + 1
   \<and> current_I_duration (fst (advance agent_EI)) = current_I_duration agent_EI + 1"
  by (simp add: agent_EI_def DisinformationAgent_def advance_def entering_I_def Let_def)

text \<open>
  C4 (amended). For an agent with a computed candidate \<open>s\<close>: the commit sets the state to
  \<open>s\<close> and clears the candidate; entering I (old state not I, new state I) adds one to the
  model's cumulative counter and to \<^verbatim>\<open>infection_count\<close>; I to R adds one to
  \<^verbatim>\<open>recovery_count\<close>; R to S adds one to \<^verbatim>\<open>relapse_count\<close>; \<^verbatim>\<open>time_in_I\<close> grows by one
  exactly when the new state is I, whether the agent enters I or remains in it; and
  \<^verbatim>\<open>current_I_duration\<close> is 1 after entering I, grows by one when the agent remains in I,
  and is unchanged otherwise.
\<close>

theorem advance_bookkeeping:
  assumes "next_state a = Some s" and "s \<noteq> []"
  shows "state (fst (advance a)) = s \<and> next_state (fst (advance a)) = None
    \<and> snd (advance a) = (if state a \<noteq> ''I'' \<and> s = ''I'' then 1 else 0)
    \<and> infection_count (fst (advance a))
        = infection_count a + (if state a \<noteq> ''I'' \<and> s = ''I'' then 1 else 0)
    \<and> recovery_count (fst (advance a))
        = recovery_count a + (if state a = ''I'' \<and> s = ''R'' then 1 else 0)
    \<and> relapse_count (fst (advance a))
        = relapse_count a + (if state a = ''R'' \<and> s = ''S'' then 1 else 0)
    \<and> time_in_I (fst (advance a)) = time_in_I a + (if s = ''I'' then 1 else 0)
    \<and> current_I_duration (fst (advance a))
        = (if s = ''I'' then (if state a = ''I'' then current_I_duration a + 1 else 1)
           else current_I_duration a)"
  using assms by (simp add: advance_def entering_I_def Let_def)

theorem advance_bookkeeping_witness:
  "next_state agent_EI = Some ''I'' \<and> state (fst (advance agent_EI)) = ''I''
   \<and> infection_count (fst (advance agent_EI)) = 1 \<and> time_in_I (fst (advance agent_EI)) = 1
   \<and> current_I_duration (fst (advance agent_EI)) = 1 \<and> snd (advance agent_EI) = 1"
  using advance_bookkeeping [of agent_EI "''I''"]
  by (simp add: agent_EI_def DisinformationAgent_def)

section \<open>Construction and initial seeding\<close>

lemma create_agents_list_all:
  assumes P: "\<And>uid arch n t c i. P (DisinformationAgent uid arch n t c i)"
  shows "create_agents cs i = Inr as \<Longrightarrow> list_all P as"
proof (induction cs arbitrary: i as)
  case Nil
  then show ?case by simp
next
  case (Cons c cs)
  obtain name count where c: "c = (name, count)" by (cases c)
  show ?case
    using Cons.prems Cons.IH P unfolding c
    by (auto simp: list_all_iff split: option.splits sum.splits)
qed

lemma create_agents_counters_zero:
  "create_agents cs i = Inr as \<Longrightarrow> list_all counters_zero as"
  by (erule create_agents_list_all [rotated])
     (simp add: counters_zero_def DisinformationAgent_def)

lemma create_agents_all_S:
  "create_agents cs i = Inr as \<Longrightarrow> list_all (\<lambda>a. state a = ''S'') as"
  by (erule create_agents_list_all [rotated]) (simp add: DisinformationAgent_def)

lemma infect_counters_zero:
  "list_all counters_zero as \<Longrightarrow> list_all counters_zero (infect seeds as)"
  by (auto simp: infect_def list_all_iff counters_zero_def)

lemma infect_states:
  "list_all (\<lambda>a. state a = ''S'') as \<Longrightarrow>
   list_all (\<lambda>a. state a = ''S'' \<or> state a = ''I'') (infect seeds as)"
  by (auto simp: infect_def list_all_iff)

lemma agents_collect [simp]: "agents (collect m) = agents m"
  by (simp add: collect_def)

lemma DisinformationModel_InrD:
  assumes "DisinformationModel c = Inr m"
  obtains b e w p nar counts as m0 m1 where
    "narrative_params c = (b, e, w, p)"
    "validate_archetype_distribution (archetype_dist c)"
    "Narrative b e w p = Inr nar"
    "1 \<le> arg_m_edges c" "arg_m_edges c < arg_population c"
    "get_archetype_counts (arg_population c) (archetype_dist c) = Inr counts"
    "create_agents counts 0 = Inr as"
    "m0 = \<lparr>narrative = nar, population = arg_population c, m_edges = arg_m_edges c,
           seeding_strategy = arg_seeding_strategy c, sigma_base = arg_sigma_base c,
           gamma_base = arg_gamma_base c, omega_base = arg_omega_base c,
           cumulative_infected = 0, current_step = 0, G = arg_network c, agents = as,
           random_py = arg_rng c, datacollector = []\<rparr>"
    "seed_initial_infections m0 = Inr m1"
    "m = collect m1"
  using assms
  unfolding DisinformationModel_def create_network_def
  by (auto split: if_splits prod.splits sum.splits)

lemma seed_initial_infections_InrD:
  assumes "seed_initial_infections m = Inr m'"
  obtains seeds r' where
    "select_seed_agents m (compute_n_seed (population m) (initial_seeding (narrative m)))
       = Inr (seeds, r')"
    "m' = m\<lparr>agents := infect seeds (agents m), random_py := r',
             cumulative_infected := cumulative_infected m + length seeds\<rparr>"
  using assms unfolding seed_initial_infections_def
  by (auto simp: Let_def split: sum.splits prod.splits)

text \<open>
  C10. After construction (agents created, seeds infected, first row collected) and before
  the first step, every agent, seeded or not, has \<^verbatim>\<open>infection_count\<close>, \<^verbatim>\<open>recovery_count\<close>,
  \<^verbatim>\<open>relapse_count\<close>, \<^verbatim>\<open>time_in_I\<close> and \<^verbatim>\<open>current_I_duration\<close> equal to 0 and no pending
  candidate; the agents differ from the freshly created ones only in their state, which
  is S or I. So a seeded agent that is never re-infected keeps \<^verbatim>\<open>infection_count = 0\<close>.
\<close>

theorem seeding_leaves_counters_zero:
  assumes "DisinformationModel c = Inr m"
  shows "list_all counters_zero (agents m)
         \<and> list_all (\<lambda>a. state a = ''S'' \<or> state a = ''I'') (agents m)
         \<and> current_step m = 0
         \<and> (\<exists>counts. get_archetype_counts (arg_population c) (archetype_dist c) = Inr counts
               \<and> create_agents counts 0 = Inr (map (\<lambda>a. a\<lparr>state := ''S''\<rparr>) (agents m)))"
proof -
  from assms obtain b e w p :: real and nar counts as m0 m1 where
    counts: "get_archetype_counts (arg_population c) (archetype_dist c) = Inr counts" and
    as: "create_agents counts 0 = Inr as" and
    m0: "m0 = \<lparr>narrative = nar, population = arg_population c, m_edges = arg_m_edges c,
           seeding_strategy = arg_seeding_strategy c, sigma_base = arg_sigma_base c,
           gamma_base = arg_gamma_base c, omega_base = arg_omega_base c,
           cumulative_infected = 0, current_step = 0, G = arg_network c, agents = as,
           random_py = arg_rng c, datacollector = []\<rparr>" and
    seed: "seed_initial_infections m0 = Inr m1" and
    m: "m = collect m1"
    by (rule DisinformationModel_InrD)
  from seed obtain seeds r' where
    m1: "m1 = m0\<lparr>agents := infect seeds (agents m0), random_py := r',
             cumulative_infected := cumulative_infected m0 + length seeds\<rparr>"
    by (rule seed_initial_infections_InrD)
  have ag: "agents m = infect seeds as" by (simp add: m m1 m0)
  have allS: "list_all (\<lambda>a. state a = ''S'') as" by (rule create_agents_all_S [OF as])
  then have "map (\<lambda>a. a\<lparr>state := ''S''\<rparr>) (infect seeds as) = as"
    by (induction as) (auto simp: infect_def)
  then have frame: "create_agents counts 0 = Inr (map (\<lambda>a. a\<lparr>state := ''S''\<rparr>) (agents m))"
    using as ag by simp
  have "current_step m = 0" by (simp add: m m1 m0 collect_def)
  then show ?thesis
    using ag create_agents_counters_zero [OF as] allS counts frame
    by (auto simp: infect_counters_zero infect_states)
qed

theorem seeding_leaves_counters_zero_witness:
  "\<exists>m. DisinformationModel args_reinfection = Inr m \<and> count_state m ''I'' = 2
       \<and> cumulative_infected m = 2 \<and> list_all counters_zero (agents m)"
proof -
  have "case DisinformationModel args_reinfection of
          Inl e \<Rightarrow> False
        | Inr m \<Rightarrow> count_state m ''I'' = 2 \<and> cumulative_infected m = 2"
    by code_simp
  then obtain m where m: "DisinformationModel args_reinfection = Inr m"
    and "count_state m ''I'' = 2" "cumulative_infected m = 2"
    by (auto split: sum.splits)
  then show ?thesis
    using seeding_leaves_counters_zero [OF m] by blast
qed

text \<open>
  C3 (evaluation of the code). With ten agents, the archetypes' own shares, an initial
  seeding of 0.06 and the policy archetype_proportional, the computed seed count 0 is
  forced up to 1, but each archetype's share of one seed truncates to 0: construction
  succeeds with no agent in state I and \<^verbatim>\<open>cumulative_infected = 0\<close>.
\<close>

theorem archetype_proportional_seeds_nobody:
  "\<exists>m. DisinformationModel args_no_seed = Inr m \<and> length (agents m) = 10
       \<and> count_state m ''I'' = 0 \<and> cumulative_infected m = 0
       \<and> compute_n_seed (population m) (initial_seeding (narrative m)) = 1"
proof -
  have "case DisinformationModel args_no_seed of
          Inl e \<Rightarrow> False
        | Inr m \<Rightarrow> length (agents m) = 10 \<and> count_state m ''I'' = 0
            \<and> cumulative_infected m = 0
            \<and> compute_n_seed (population m) (initial_seeding (narrative m)) = 1"
    by code_simp
  then show ?thesis by (auto split: sum.splits)
qed

section \<open>Attack rate\<close>

text \<open>
  C1 (evaluation of the code). Two agents, both seeded. Agent 0 recovers, relapses, is
  exposed by agent 1 and adopts again; each entry into I is counted, so after four steps
  \<^verbatim>\<open>cumulative_infected\<close> is 3 for a population of 2 and the attack rate is 3/2.
\<close>

theorem attack_rate_exceeds_one:
  "\<exists>m0 m pm. DisinformationModel args_reinfection = Inr m0 \<and> run m0 4 = Inr m
       \<and> get_peak_metrics m = Inr pm \<and> attack_rate pm = Fin (3 / 2)
       \<and> cumulative_infected m = 3 \<and> population m = 2 \<and> length (agents m) = 2"
proof -
  have "case DisinformationModel args_reinfection of
          Inl e \<Rightarrow> False
        | Inr m0 \<Rightarrow>
            (case run m0 4 of
               Inl e \<Rightarrow> False
             | Inr m \<Rightarrow>
                 (case get_peak_metrics m of
                    Inl e \<Rightarrow> False
                  | Inr pm \<Rightarrow> attack_rate pm = Fin (3 / 2) \<and> cumulative_infected m = 3
                      \<and> population m = 2 \<and> length (agents m) = 2))"
    by code_simp
  then show ?thesis by (auto split: sum.splits)
qed

section \<open>Profile-stratified metrics\<close>

text \<open>
  C5 (evaluation of the code). The class defines no method
  \<^verbatim>\<open>get_profile_stratified_metrics\<close>: looking it up on a model raises AttributeError. The
  per-archetype operation the class does define is \<^verbatim>\<open>get_archetype_infection_rates\<close>.
\<close>

theorem profile_metrics_method_missing:
  "lookup_method ''get_profile_stratified_metrics'' = Inl AttributeError
   \<and> lookup_method ''get_archetype_infection_rates'' = Inr ''get_archetype_infection_rates''"
  by (simp add: lookup_method_def DisinformationModel_methods_def)


section \<open>Early stopping of a run\<close>

lemma step_counters:
  assumes "step m = Inr m'"
  shows "current_step m' = current_step m + 1"
    and "length (datacollector m') = length (datacollector m) + 1"
  using assms
  by (auto simp: step_def collect_def Let_def split: sum.splits prod.splits)

lemma steps_counters:
  "steps m k = Inr mk \<Longrightarrow>
   current_step mk = current_step m + k
   \<and> length (datacollector mk) = length (datacollector m) + k"
proof (induction k arbitrary: m)
  case 0
  then show ?case by simp
next
  case (Suc k)
  then obtain m' where s: "step m = Inr m'" and r: "steps m' k = Inr mk"
    by (auto split: sum.splits)
  show ?case
    using Suc.IH [OF r] step_counters [OF s] by simp
qed

lemma run_loop_steps:
  assumes "steps m k = Inr mk" and "k \<le> n"
    and "\<forall>j mj. 0 < j \<and> j < k \<and> steps m j = Inr mj \<longrightarrow> \<not> epidemic_ended mj"
    and "(0 < k \<and> epidemic_ended mk) \<or> k = n"
  shows "run_loop m n = Inr mk"
  using assms
proof (induction k arbitrary: m n)
  case 0
  then show ?case by simp
next
  case (Suc k)
  from Suc.prems(1) obtain m' where s: "step m = Inr m'" and r: "steps m' k = Inr mk"
    by (auto split: sum.splits)
  from Suc.prems(2) obtain n' where n: "n = Suc n'" and kn: "k \<le> n'"
    by (cases n) auto
  show ?case
  proof (cases k)
    case 0
    then have "mk = m'" using r by simp
    then show ?thesis using Suc.prems(4) s n 0 by auto
  next
    case (Suc k')
    have "steps m 1 = Inr m'" using s by simp
    then have ne: "\<not> epidemic_ended m'"
      using Suc.prems(3) Suc by (metis One_nat_def Suc_less_eq zero_less_Suc)
    have before: "\<forall>j mj. 0 < j \<and> j < k \<and> steps m' j = Inr mj \<longrightarrow> \<not> epidemic_ended mj"
    proof (intro allI impI)
      fix j mj
      assume a: "0 < j \<and> j < k \<and> steps m' j = Inr mj"
      then have "steps m (Suc j) = Inr mj" using s by simp
      then show "\<not> epidemic_ended mj"
        using Suc.prems(3) a by (metis Suc_less_eq zero_less_Suc)
    qed
    have last: "(0 < k \<and> epidemic_ended mk) \<or> k = n'"
      using Suc.prems(4) n Suc by auto
    have "run_loop m' n' = Inr mk"
      by (rule Suc.IH [OF r kn before last])
    then show ?thesis using s ne n by simp
  qed
qed

text \<open>
  C8. \<^verbatim>\<open>run(max_steps)\<close> executes exactly \<open>k\<close> steps, where \<open>k\<close> is the first executed step
  at whose end the E-count and the I-count are both zero, or \<open>max_steps\<close> when no earlier
  step ends so: if \<open>k\<close> steps lead to \<open>mk\<close>, no step before the \<open>k\<close>-th ended with both
  counts zero, and the \<open>k\<close>-th did (or the budget is exhausted), then the run returns
  \<open>mk\<close>, whose step counter and time series have grown by exactly \<open>k\<close>, however much larger
  \<open>max_steps\<close> is.
\<close>

theorem run_stops_at_first_extinction:
  assumes "steps m k = Inr mk" and "int k \<le> max_steps"
    and "\<forall>j mj. 0 < j \<and> j < k \<and> steps m j = Inr mj \<longrightarrow> \<not> epidemic_ended mj"
    and "(0 < k \<and> epidemic_ended mk) \<or> int k = max_steps"
  shows "run m max_steps = Inr mk \<and> current_step mk = current_step m + k
         \<and> length (datacollector mk) = length (datacollector m) + k"
proof -
  have "k \<le> nat max_steps" using assms(2) by linarith
  moreover have "(0 < k \<and> epidemic_ended mk) \<or> k = nat max_steps"
    using assms(4) by auto
  ultimately have "run_loop m (nat max_steps) = Inr mk"
    using run_loop_steps [OF assms(1) _ assms(3)] by blast
  then show ?thesis
    using steps_counters [OF assms(1)] by (simp add: run_def)
qed

theorem run_stops_at_first_extinction_witness:
  "\<exists>m0 m2. DisinformationModel args_extinction = Inr m0 \<and> steps m0 2 = Inr m2
      \<and> epidemic_ended m2 \<and> run m0 50 = Inr m2 \<and> current_step m2 = 2
      \<and> length (datacollector m2) = 3"
proof -
  have "case DisinformationModel args_extinction of
          Inl e \<Rightarrow> False
        | Inr m0 \<Rightarrow>
            current_step m0 = 0 \<and> length (datacollector m0) = 1 \<and>
            (case step m0 of
               Inl e \<Rightarrow> False
             | Inr m1 \<Rightarrow>
                 \<not> epidemic_ended m1 \<and>
                 (case step m1 of Inl e \<Rightarrow> False | Inr m2 \<Rightarrow> epidemic_ended m2))"
    by code_simp
  then obtain m0 m1 m2 where m0: "DisinformationModel args_extinction = Inr m0"
    and c0: "current_step m0 = 0" "length (datacollector m0) = 1"
    and s1: "step m0 = Inr m1" and n1: "\<not> epidemic_ended m1"
    and s2: "step m1 = Inr m2" and e2: "epidemic_ended m2"
    by (auto split: sum.splits)
  have k2: "steps m0 2 = Inr m2"
    using s1 s2 by (simp add: numeral_2_eq_2)
  have before: "\<forall>j mj. 0 < j \<and> j < 2 \<and> steps m0 j = Inr mj \<longrightarrow> \<not> epidemic_ended mj"
  proof (intro allI impI)
    fix j :: nat and mj
    assume a: "0 < j \<and> j < 2 \<and> steps m0 j = Inr mj"
    then have "j = 1" by linarith
    with a s1 have "mj = m1" by simp
    then show "\<not> epidemic_ended mj" using n1 by simp
  qed
  have "run m0 50 = Inr m2 \<and> current_step m2 = current_step m0 + 2
        \<and> length (datacollector m2) = length (datacollector m0) + 2"
    using run_stops_at_first_extinction [OF k2 _ before, of 50] e2 by simp
  then show ?thesis using m0 k2 e2 c0 by auto
qed

section \<open>The reproduction number\<close>






section \<open>State counts and the population\<close>

lemma counts_surplus:
  "get_archetype_counts 2048 surplus_dist =
     Inr [(''immune'', 1026), (''superspreader'', 1024), (''moderate'', - 2),
          (''critical_thinker'', 0), (''cynical_contrarian'', 0)]
   \<and> validate_archetype_distribution surplus_dist"
  by (simp add: get_archetype_counts_def validate_archetype_distribution_def py_int_def
      dict_add_def Let_def surplus_dist_def)

lemma create_agents_length:
  "create_agents cs i = Inr as \<Longrightarrow> length as = sum_list (map (\<lambda>c. nat (snd c)) cs)"
proof (induction cs arbitrary: i as)
  case Nil
  then show ?case by simp
next
  case (Cons c cs)
  obtain name count where c: "c = (name, count)" by (cases c)
  show ?case
    using Cons.prems Cons.IH unfolding c
    by (auto split: option.splits sum.splits)
qed

lemma create_agents_succeeds:
  "list_all (\<lambda>c. fst c \<in> set (map fst ARCHETYPES)) cs \<Longrightarrow> \<exists>as. create_agents cs i = Inr as"
proof (induction cs arbitrary: i)
  case Nil
  then show ?case by simp
next
  case (Cons c cs)
  obtain name count where c: "c = (name, count)" by (cases c)
  from Cons.prems c have "name \<in> set (map fst ARCHETYPES)" by simp
  then obtain p where p: "map_of ARCHETYPES name = Some p"
    by (metis map_of_eq_None_iff not_Some_eq set_map)
  from Cons.prems obtain as where "create_agents cs (i + nat count) = Inr as"
    using Cons.IH by auto
  then show ?case by (simp add: c p)
qed

lemma state_counts_sum:
  "list_all (\<lambda>a. valid_state (state a)) as \<Longrightarrow>
   length (filter (\<lambda>a. state a = ''S'') as) + length (filter (\<lambda>a. state a = ''E'') as)
   + length (filter (\<lambda>a. state a = ''I'') as) + length (filter (\<lambda>a. state a = ''R'') as)
   = length as"
  by (induction as) (auto simp: valid_state_def)

lemma collect_row_sum:
  "list_all (\<lambda>a. valid_state (state a)) (agents m) \<Longrightarrow>
   Susceptible (collect_row m) + Exposed (collect_row m) + Infected (collect_row m)
   + Recovered (collect_row m) = length (agents m)"
  using state_counts_sum [of "agents m"] by (simp add: collect_row_def count_state_def)

lemma length_infect [simp]: "length (infect seeds as) = length as"
  by (simp add: infect_def)

text \<open>What construction yields: as many agents as the non-negative counts add up to, and
  one row whose four state counts add up to the number of agents.\<close>

lemma DisinformationModel_first_row:
  assumes "DisinformationModel c = Inr m"
  shows "\<exists>counts r. get_archetype_counts (arg_population c) (archetype_dist c) = Inr counts
           \<and> length (agents m) = sum_list (map (\<lambda>c. nat (snd c)) counts)
           \<and> population m = arg_population c
           \<and> datacollector m = [r]
           \<and> Susceptible r + Exposed r + Infected r + Recovered r = length (agents m)"
proof -
  from assms obtain b e w p :: real and nar counts as m0 m1 where
    counts: "get_archetype_counts (arg_population c) (archetype_dist c) = Inr counts" and
    as: "create_agents counts 0 = Inr as" and
    m0: "m0 = \<lparr>narrative = nar, population = arg_population c, m_edges = arg_m_edges c,
           seeding_strategy = arg_seeding_strategy c, sigma_base = arg_sigma_base c,
           gamma_base = arg_gamma_base c, omega_base = arg_omega_base c,
           cumulative_infected = 0, current_step = 0, G = arg_network c, agents = as,
           random_py = arg_rng c, datacollector = []\<rparr>" and
    seed: "seed_initial_infections m0 = Inr m1" and
    m: "m = collect m1"
    by (rule DisinformationModel_InrD)
  from seed obtain seeds r' where
    m1: "m1 = m0\<lparr>agents := infect seeds (agents m0), random_py := r',
             cumulative_infected := cumulative_infected m0 + length seeds\<rparr>"
    by (rule seed_initial_infections_InrD)
  have "list_all (\<lambda>a. state a = ''S'' \<or> state a = ''I'') (agents m1)"
    using create_agents_all_S [OF as] by (simp add: m1 m0 infect_states)
  then have valid: "list_all (\<lambda>a. valid_state (state a)) (agents m1)"
    by (auto simp: list_all_iff valid_state_def)
  have len: "length (agents m) = sum_list (map (\<lambda>c. nat (snd c)) counts)"
    using create_agents_length [OF as] by (simp add: m m1 m0)
  have "datacollector m = [collect_row m1]" by (simp add: m m1 m0 collect_def)
  moreover have "population m = arg_population c" by (simp add: m m1 m0 collect_def)
  ultimately show ?thesis
    using counts len collect_row_sum [OF valid] by (simp add: m)
qed

lemma surplus_constructs: "\<exists>m. DisinformationModel args_surplus = Inr m"
proof -
  let ?counts = "[(''immune'', 1026), (''superspreader'', 1024), (''moderate'', - 2),
          (''critical_thinker'', 0), (''cynical_contrarian'', 0)] :: (string \<times> int) list"
  have "list_all (\<lambda>c. fst c \<in> set (map fst ARCHETYPES)) ?counts"
    by (simp add: ARCHETYPES_def)
  then obtain as where as: "create_agents ?counts 0 = Inr as"
    using create_agents_succeeds by blast
  have len: "length as = 2050" using create_agents_length [OF as] by simp
  have "compute_n_seed 2048 0 = 1" by (simp add: compute_n_seed_def py_int_def)
  then show ?thesis
    using counts_surplus as len
    by (simp add: DisinformationModel_def args_surplus_def Narrative_def in_unit_def
        create_network_def seed_initial_infections_def select_seed_agents_def
        random_sample_def Let_def split: prod.splits)
qed

text \<open>
  C7 (evaluation of the code). For population 2048 and shares immune 0.5009765625,
  superspreader 0.5 and 0 for the rest, the truncated counts 1026 and 1024 exceed the
  population by 2, the surplus is subtracted from moderate, whose count becomes -2, and
  \<^verbatim>\<open>range(-2)\<close> creates no agent: 2050 agents exist for a population of 2048, and the four
  state counts of the row collected at construction add up to 2050.
\<close>

theorem first_row_exceeds_population:
  "\<exists>m r. DisinformationModel args_surplus = Inr m \<and> population m = 2048
      \<and> datacollector m = [r]
      \<and> Susceptible r + Exposed r + Infected r + Recovered r = 2050"
proof -
  obtain m where m: "DisinformationModel args_surplus = Inr m"
    using surplus_constructs by blast
  from DisinformationModel_first_row [OF m] counts_surplus
  show ?thesis using m by (auto simp: args_surplus_def)
qed


section \<open>Random seeding\<close>














section \<open>What holds in every run\<close>

lemma sum_update_add:
  fixes xs :: "(string \<times> int) list"
  shows "map_of xs k = Some v \<Longrightarrow>
     sum_list (map snd (AList.update k (v + x) xs)) = sum_list (map snd xs) + x"
  by (induction xs) (auto split: if_splits)

text \<open>Whenever counts are returned, they add up to the population.\<close>

lemma get_archetype_counts_sum:
  assumes "get_archetype_counts n d = Inr cs"
  shows "sum_list (map snd cs) = n"
  using assms
  by (auto simp: get_archetype_counts_def dict_add_def Let_def sum_update_add
      split: if_splits option.splits)

lemma agent_step_valid:
  assumes "agent_step m a r = Inr (a', r')" and "valid_state (state a)"
  shows "state a' = state a \<and> (\<exists>s. next_state a' = Some s \<and> valid_state s)"
  using assms
  by (auto simp: agent_step_def check_exposure_def check_adoption_def check_correction_def
      check_relapse_def valid_state_def Let_def
      split: if_splits sum.splits prod.splits)

lemma compute_phase_valid:
  "compute_phase m as r = Inr (as', r') \<Longrightarrow> list_all (\<lambda>a. valid_state (state a)) as \<Longrightarrow>
   length as' = length as
   \<and> list_all (\<lambda>a. \<exists>s. next_state a = Some s \<and> valid_state s) as'"
proof (induction as arbitrary: r as' r')
  case Nil
  then show ?case by simp
next
  case (Cons a as)
  from Cons.prems(1) obtain a1 r1 as1 where
    a1: "agent_step m a r = Inr (a1, r1)" and
    as1: "compute_phase m as r1 = Inr (as1, r')" and
    eq: "as' = a1 # as1"
    by (auto split: sum.splits prod.splits)
  have "valid_state (state a)" "list_all (\<lambda>a. valid_state (state a)) as"
    using Cons.prems(2) by simp_all
  then show ?case
    using agent_step_valid [OF a1] Cons.IH [OF as1] eq by simp
qed

lemma advance_valid:
  "next_state a = Some s \<Longrightarrow> valid_state s \<Longrightarrow> state (fst (advance a)) = s"
  by (auto simp: advance_def entering_I_def valid_state_def Let_def)

lemma commit_phase_valid:
  "list_all (\<lambda>a. \<exists>s. next_state a = Some s \<and> valid_state s) as \<Longrightarrow>
   length (fst (commit_phase as)) = length as
   \<and> list_all (\<lambda>a. valid_state (state a)) (fst (commit_phase as))"
  by (auto simp: commit_phase_def list_all_iff advance_valid)

lemma rows_ok_collect:
  assumes "list_all (\<lambda>a. valid_state (state a)) (agents m)"
    and "list_all (\<lambda>r. Susceptible r + Exposed r + Infected r + Recovered r = length (agents m))
           (datacollector m)"
  shows "rows_ok (collect m)"
  using assms collect_row_sum [OF assms(1)]
  by (simp add: rows_ok_def collect_def collect_row_def)

lemma step_rows_ok:
  assumes "step m = Inr m'" and "rows_ok m"
  shows "rows_ok m' \<and> length (agents m') = length (agents m) \<and> population m' = population m"
proof -
  from assms(1) obtain as1 r1 where
    cp: "compute_phase m (agents m) (random_py m) = Inr (as1, r1)" and
    m': "m' = (collect (m\<lparr>agents := fst (commit_phase as1), random_py := r1,
              cumulative_infected := cumulative_infected m + snd (commit_phase as1)\<rparr>))
            \<lparr>current_step := current_step m + 1\<rparr>"
    by (auto simp: step_def Let_def collect_def split: sum.splits prod.splits)
  have valid: "list_all (\<lambda>a. valid_state (state a)) (agents m)"
    using assms(2) by (simp add: rows_ok_def)
  from compute_phase_valid [OF cp valid]
  have l1: "length as1 = length (agents m)"
    and n1: "list_all (\<lambda>a. \<exists>s. next_state a = Some s \<and> valid_state s) as1"
    by simp_all
  from commit_phase_valid [OF n1]
  have l2: "length (fst (commit_phase as1)) = length as1"
    and v2: "list_all (\<lambda>a. valid_state (state a)) (fst (commit_phase as1))"
    by simp_all
  let ?m1 = "m\<lparr>agents := fst (commit_phase as1), random_py := r1,
              cumulative_infected := cumulative_infected m + snd (commit_phase as1)\<rparr>"
  have "rows_ok (collect ?m1)"
  proof (rule rows_ok_collect)
    show "list_all (\<lambda>a. valid_state (state a)) (agents ?m1)" using v2 by simp
    show "list_all (\<lambda>r. Susceptible r + Exposed r + Infected r + Recovered r
             = length (agents ?m1)) (datacollector ?m1)"
      using assms(2) l1 l2 by (simp add: rows_ok_def)
  qed
  then have "rows_ok m'" by (simp add: m' rows_ok_def)
  moreover have "length (agents m') = length (agents m)" using l1 l2 by (simp add: m')
  moreover have "population m' = population m" by (simp add: m' collect_def)
  ultimately show ?thesis by simp
qed

lemma run_loop_rows_ok:
  "run_loop m n = Inr m' \<Longrightarrow> rows_ok m \<Longrightarrow>
   rows_ok m' \<and> length (agents m') = length (agents m) \<and> population m' = population m"
proof (induction n arbitrary: m)
  case 0
  then show ?case by simp
next
  case (Suc n)
  from Suc.prems(1) obtain m1 where s: "step m = Inr m1"
    and rest: "epidemic_ended m1 \<and> m' = m1 \<or> run_loop m1 n = Inr m'"
    by (auto split: sum.splits if_splits)
  from step_rows_ok [OF s Suc.prems(2)] rest Suc.IH [of m1]
  show ?case by auto
qed

lemma DisinformationModel_rows_ok:
  assumes "DisinformationModel c = Inr m"
  shows "rows_ok m \<and> 2 \<le> population m"
proof -
  from assms obtain b e w p :: real and nar counts as m0 m1 where
    edges: "1 \<le> arg_m_edges c" "arg_m_edges c < arg_population c" and
    as: "create_agents counts 0 = Inr as" and
    m0: "m0 = \<lparr>narrative = nar, population = arg_population c, m_edges = arg_m_edges c,
           seeding_strategy = arg_seeding_strategy c, sigma_base = arg_sigma_base c,
           gamma_base = arg_gamma_base c, omega_base = arg_omega_base c,
           cumulative_infected = 0, current_step = 0, G = arg_network c, agents = as,
           random_py = arg_rng c, datacollector = []\<rparr>" and
    seed: "seed_initial_infections m0 = Inr m1" and
    m: "m = collect m1"
    by (rule DisinformationModel_InrD)
  from seed obtain seeds r' where
    m1: "m1 = m0\<lparr>agents := infect seeds (agents m0), random_py := r',
             cumulative_infected := cumulative_infected m0 + length seeds\<rparr>"
    by (rule seed_initial_infections_InrD)
  have "list_all (\<lambda>a. state a = ''S'' \<or> state a = ''I'') (agents m1)"
    using create_agents_all_S [OF as] by (simp add: m1 m0 infect_states)
  then have valid: "list_all (\<lambda>a. valid_state (state a)) (agents m1)"
    by (auto simp: list_all_iff valid_state_def)
  have "rows_ok (collect m1)"
    by (rule rows_ok_collect [OF valid]) (simp add: m1 m0)
  moreover have "population m = arg_population c" by (simp add: m m1 m0 collect_def)
  ultimately show ?thesis using edges m by simp
qed

text \<open>In every run, from construction on.\<close>

lemma run_rows_sum_to_agents:
  assumes "DisinformationModel c = Inr m0" and "run m0 max_steps = Inr m"
  shows "list_all (\<lambda>a. valid_state (state a)) (agents m)
       \<and> list_all (\<lambda>r. Susceptible r + Exposed r + Infected r + Recovered r
                       = length (agents m0)) (datacollector m)"
proof -
  have "rows_ok m0" using DisinformationModel_rows_ok [OF assms(1)] by simp
  moreover have "run_loop m0 (nat max_steps) = Inr m" using assms(2) by (simp add: run_def)
  ultimately have ok: "rows_ok m" and len: "length (agents m) = length (agents m0)"
    using run_loop_rows_ok by blast+
  show ?thesis using ok unfolding rows_ok_def len by simp
qed

lemma run_attack_rate:
  assumes "DisinformationModel c = Inr m0" and "run m0 max_steps = Inr m"
  shows "\<exists>pm. get_peak_metrics m = Inr pm
       \<and> attack_rate pm
           = Fin (real (cumulative_infected m) / real_of_int (population m))
       \<and> 0 \<le> real (cumulative_infected m) / real_of_int (population m)"
proof -
  have ok: "rows_ok m" "2 \<le> population m"
    using DisinformationModel_rows_ok [OF assms(1)] run_loop_rows_ok [of m0 "nat max_steps" m]
      assms(2)
    by (simp_all add: run_def)
  then show ?thesis
    by (simp add: get_peak_metrics_def rows_ok_def Let_def np_div_def)
qed


end
